theory Spec2Isabelle
  imports Main "HOL-Library.AList" "HOL-Library.Char_ord" "HOL-Library.List_Lexorder"
    "HOL-Library.Multiset"
begin

section \<open>Python values and exceptions\<close>

text \<open>
  The pipeline moves dynamically typed data around: parsed JSON from the OCR output,
  dictionaries returned by the summarizer, documents of the Deal Store. One datatype
  holds them all. A Python \<open>str\<close> is a \<open>string\<close> whose characters are the code points
  0..255 (compared by code, as Python compares strings); text with code points above
  255 is outside this model. A \<open>dict\<close> is an association list read with \<open>map_of\<close>
  (the first binding of a key is the one that counts). Numbers are integers: the code
  never computes with a number it reads, it only tests it for truth.
\<close>

datatype val =
    VNone
  | VBool bool
  | VNum int
  | VStr string
  | VTime nat
  | VList "val list"
  | VDict "(string \<times> val) list"

type_synonym dict = "(string \<times> val) list"

datatype exc =
    KeyError string
  | TypeError string
  | AttributeError string
  | HTTPException nat string
  | ServiceError string

text \<open>
  \<open>ServiceError m\<close> is any exception an external client raises (Vision, Cloud Storage,
  Gemini, the search provider, \<open>json.loads\<close>), with its message \<open>m\<close>.
\<close>

definition digit_char :: "nat \<Rightarrow> char" where
  "digit_char n = ''0123456789'' ! n"

fun str_nat :: "nat \<Rightarrow> string" where
  "str_nat n = (if n < 10 then [digit_char n] else str_nat (n div 10) @ [digit_char (n mod 10)])"

text \<open>
  \<open>str(e)\<close>: a \<open>KeyError\<close> prints the \<open>repr\<close> of its key (the keys used here hold no
  quote character); Starlette's \<open>HTTPException\<close> prints \<open>status_code: detail\<close>.
\<close>

fun str_exc :: "exc \<Rightarrow> string" where
  "str_exc (KeyError k) = [CHR 0x27] @ k @ [CHR 0x27]"
| "str_exc (TypeError m) = m"
| "str_exc (AttributeError m) = m"
| "str_exc (HTTPException c d) = str_nat c @ '': '' @ d"
| "str_exc (ServiceError m) = m"

fun py_truthy :: "val \<Rightarrow> bool" where
  "py_truthy VNone = False"
| "py_truthy (VBool b) = b"
| "py_truthy (VNum n) = (n \<noteq> 0)"
| "py_truthy (VStr s) = (s \<noteq> [])"
| "py_truthy (VTime t) = True"
| "py_truthy (VList xs) = (xs \<noteq> [])"
| "py_truthy (VDict kvs) = (kvs \<noteq> [])"

text \<open>\<open>d.get(k, default)\<close>: only a dict has the method.\<close>

fun py_get :: "val \<Rightarrow> string \<Rightarrow> val \<Rightarrow> exc + val" where
  "py_get (VDict kvs) k d = Inr (case map_of kvs k of None \<Rightarrow> d | Some v \<Rightarrow> v)"
| "py_get v k d = Inl (AttributeError ''object has no attribute get'')"

text \<open>\<open>v[k]\<close> with a string key: a missing key of a dict, or a value that is no dict.\<close>

fun py_index :: "val \<Rightarrow> string \<Rightarrow> exc + val" where
  "py_index (VDict kvs) k = (case map_of kvs k of None \<Rightarrow> Inl (KeyError k) | Some v \<Rightarrow> Inr v)"
| "py_index v k = Inl (TypeError ''object is not subscriptable with a string'')"

text \<open>
  \<open>for x in v\<close>: a list gives its elements, a dict its keys, a string its characters;
  nothing else is iterable.
\<close>

fun py_iter :: "val \<Rightarrow> exc + val list" where
  "py_iter (VList xs) = Inr xs"
| "py_iter (VDict kvs) = Inr (map VStr (remdups (map fst kvs)))"
| "py_iter (VStr s) = Inr (map (\<lambda>c. VStr [c]) s)"
| "py_iter v = Inl (TypeError ''object is not iterable'')"

text \<open>An element handed to \<open>str.join\<close> must be a string.\<close>

fun as_str :: "val \<Rightarrow> exc + string" where
  "as_str (VStr s) = Inr s"
| "as_str v = Inl (TypeError ''sequence item: expected str instance'')"

text \<open>Running a fallible step over a list stops at the first exception.\<close>

fun map_exc :: "('a \<Rightarrow> exc + 'b) \<Rightarrow> 'a list \<Rightarrow> exc + 'b list" where
  "map_exc f [] = Inr []"
| "map_exc f (x # xs) =
     (case f x of
        Inl e \<Rightarrow> Inl e
      | Inr y \<Rightarrow> (case map_exc f xs of Inl e \<Rightarrow> Inl e | Inr ys \<Rightarrow> Inr (y # ys)))"

text \<open>Nested loops that append to one list: the results of the steps, in order, as one list.\<close>

definition concat_exc :: "('a \<Rightarrow> exc + 'b list) \<Rightarrow> 'a list \<Rightarrow> exc + 'b list" where
  "concat_exc f xs = (case map_exc f xs of Inl e \<Rightarrow> Inl e | Inr yss \<Rightarrow> Inr (concat yss))"

fun join :: "string \<Rightarrow> string list \<Rightarrow> string" where
  "join sep [] = []"
| "join sep [s] = s"
| "join sep (s # t # ts) = s @ sep @ join sep (t # ts)"

text \<open>\<open>str.isspace\<close> on the code points 0..255, and \<open>str.strip()\<close>.\<close>

definition is_space :: "char \<Rightarrow> bool" where
  "is_space c = (of_char c \<in> {9, 10, 11, 12, 13, 28, 29, 30, 31, 32, 133, 160 :: nat})"

definition strip :: "string \<Rightarrow> string" where
  "strip s = rev (dropWhile is_space (rev (dropWhile is_space s)))"

definition endswith :: "string \<Rightarrow> string \<Rightarrow> bool" where
  "endswith s suffix = (length suffix \<le> length s \<and> drop (length s - length suffix) s = suffix)"

section \<open>Text extraction: \<open>PDFProcessor._extract_text_from_pdf\<close>\<close>

text \<open>
  An output artifact of the OCR run: its name in the bucket and what
  \<open>json.loads(blob.download_as_text())\<close> gives for it, the parsed value or the exception
  of the download or of the parser.
\<close>

record blob =
  name :: string
  body :: "exc + val"

text \<open>
  The fallback of lines 136-150: page text rebuilt from pages, blocks, paragraphs, words
  and symbols. Any exception inside it leaves the page text empty.
\<close>

definition word_symbols :: "val \<Rightarrow> exc + string" where
  "word_symbols word =
     (case py_get word ''symbols'' (VList []) of
        Inl e \<Rightarrow> Inl e
      | Inr syms \<Rightarrow>
         (case py_iter syms of
            Inl e \<Rightarrow> Inl e
          | Inr ss \<Rightarrow>
             (case map_exc (\<lambda>s. py_get s ''text'' (VStr [])) ss of
                Inl e \<Rightarrow> Inl e
              | Inr ts \<Rightarrow>
                 (case map_exc as_str ts of
                    Inl e \<Rightarrow> Inl e
                  | Inr strs \<Rightarrow> Inr (join [] strs)))))"

definition para_text :: "val \<Rightarrow> exc + string" where
  "para_text para =
     (case py_get para ''words'' (VList []) of
        Inl e \<Rightarrow> Inl e
      | Inr ws \<Rightarrow>
         (case py_iter ws of
            Inl e \<Rightarrow> Inl e
          | Inr wl \<Rightarrow>
             (case map_exc word_symbols wl of
                Inl e \<Rightarrow> Inl e
              | Inr words \<Rightarrow> Inr (join '' '' words))))"

definition block_paras :: "val \<Rightarrow> exc + string list" where
  "block_paras block =
     (case py_get block ''paragraphs'' (VList []) of
        Inl e \<Rightarrow> Inl e
      | Inr ps \<Rightarrow>
         (case py_iter ps of
            Inl e \<Rightarrow> Inl e
          | Inr pl \<Rightarrow> map_exc para_text pl))"

definition page_paras :: "val \<Rightarrow> exc + string list" where
  "page_paras page =
     (case py_get page ''blocks'' (VList []) of
        Inl e \<Rightarrow> Inl e
      | Inr bs \<Rightarrow>
         (case py_iter bs of
            Inl e \<Rightarrow> Inl e
          | Inr bl \<Rightarrow> concat_exc block_paras bl))"

definition reconstruct :: "val \<Rightarrow> exc + string" where
  "reconstruct resp =
     (case py_get resp ''pages'' (VList []) of
        Inl e \<Rightarrow> Inl e
      | Inr pgs \<Rightarrow>
         (case py_iter pgs of
            Inl e \<Rightarrow> Inl e
          | Inr pl \<Rightarrow>
             (case concat_exc page_paras pl of
                Inl e \<Rightarrow> Inl e
              | Inr reconstructed \<Rightarrow> Inr (strip (join [CHR 0x0A] reconstructed)))))"

definition fallback_text :: "val \<Rightarrow> string" where
  "fallback_text resp = (case reconstruct resp of Inl e \<Rightarrow> [] | Inr t \<Rightarrow> t)"

text \<open>
  One response (one page) of an artifact, lines 128-153: the texts it appends to
  \<open>texts\<close>, none or one. A page text that is true but not a string has no \<open>strip\<close>.
\<close>

definition resp_texts :: "val \<Rightarrow> exc + string list" where
  "resp_texts resp =
     (case py_get resp ''fullTextAnnotation'' (VDict []) of
        Inl e \<Rightarrow> Inl e
      | Inr full \<Rightarrow>
         (case py_get full ''text'' (VStr []) of
            Inl e \<Rightarrow> Inl e
          | Inr page_text \<Rightarrow>
             (if \<not> py_truthy page_text
              then (let t = fallback_text resp in Inr (if strip t \<noteq> [] then [strip t] else []))
              else (case page_text of
                      VStr s \<Rightarrow> Inr (if strip s \<noteq> [] then [strip s] else [])
                    | _ \<Rightarrow> Inl (AttributeError ''object has no attribute strip'')))))"

text \<open>One artifact, lines 121-153: skipped unless its name ends in \<open>.json\<close>.\<close>

definition blob_texts :: "blob \<Rightarrow> exc + string list" where
  "blob_texts b =
     (if \<not> endswith (name b) ''.json'' then Inr []
      else (case body b of
              Inl e \<Rightarrow> Inl e
            | Inr data \<Rightarrow>
               (case py_get data ''responses'' (VList []) of
                  Inl e \<Rightarrow> Inl e
                | Inr rs \<Rightarrow>
                   (case py_iter rs of
                      Inl e \<Rightarrow> Inl e
                    | Inr rl \<Rightarrow> concat_exc resp_texts rl))))"

text \<open>
  The loop over the artifacts, sorted by name (lines 116-159). Deleting an artifact after
  it is read is best effort and changes no returned value; it is left out.
\<close>

definition read_blobs :: "blob list \<Rightarrow> exc + string list" where
  "read_blobs blobs = concat_exc blob_texts (sort_key name blobs)"

text \<open>
  \<open>_extract_text_from_pdf\<close>. Its argument is the outcome of steps 1 and 2 and of the
  listing of the output prefix: the exception raised by the Vision request, the bounded
  wait or the listing, or the artifacts found.
\<close>

definition extract_text_from_pdf :: "exc + blob list \<Rightarrow> string list" where
  "extract_text_from_pdf ocr =
     (case ocr of
        Inl e \<Rightarrow> [[]]
      | Inr blobs \<Rightarrow>
         (case read_blobs blobs of
            Inl e \<Rightarrow> [[]]
          | Inr texts \<Rightarrow> (if texts \<noteq> [] then texts else [[]])))"

section \<open>The external services\<close>

text \<open>
  The clients the pipeline calls are not part of the code under verification. Each is a
  parameter: what the call returns, or the exception it raises.
  \<^item> \<open>vision_ocr\<close>: steps 1 and 2 of \<open>_extract_text_from_pdf\<close> and the listing of the
    output prefix, for a document path;
  \<^item> \<open>summarize_pitch_deck\<close>, \<open>summarizer_generate_memo\<close>: the two calls of
    \<open>GeminiSummarizer\<close>;
  \<^item> \<open>gather_data\<close>: \<open>PublicDataGatherer.gather_data\<close>;
  \<^item> \<open>create_memo_docx\<close>: \<open>MemoExporter.create_memo_docx\<close>;
  \<^item> \<open>upload_file\<close>: \<open>GCSManager.upload_file\<close>, by destination path;
  \<^item> \<open>metadata_defaults\<close>: the fields of \<open>DealMetadata\<close> the upload leaves at their
    defaults;
  \<^item> \<open>utcnow\<close>: the reading of the clock.
\<close>

record env =
  vision_ocr :: "string \<Rightarrow> exc + blob list"
  summarize_pitch_deck :: "string \<Rightarrow> exc + val"
  summarizer_generate_memo :: "dict \<Rightarrow> val \<Rightarrow> exc + string"
  gather_data :: "val \<Rightarrow> val \<Rightarrow> val \<Rightarrow> exc + val"
  create_memo_docx :: "string \<Rightarrow> string \<Rightarrow> exc + string"
  upload_file :: "string \<Rightarrow> exc + string"
  metadata_defaults :: dict
  utcnow :: nat

section \<open>\<open>PDFProcessor.process_pdf\<close>\<close>

definition page_label :: "nat \<times> string \<Rightarrow> string" where
  "page_label p = ''Page '' @ str_nat (fst p + 1) @ '': '' @ snd p"

definition full_text_of :: "string list \<Rightarrow> string" where
  "full_text_of page_texts =
     join [CHR 0x0A, CHR 0x0A]
       (map page_label (filter (\<lambda>p. snd p \<noteq> []) (enumerate 0 page_texts)))"

definition raw_pages :: "string list \<Rightarrow> val" where
  "raw_pages page_texts =
     VDict (map (\<lambda>p. (str_nat (fst p + 1), VStr (snd p))) (enumerate 0 page_texts))"

text \<open>The body of the \<open>try\<close>, lines 41-63.\<close>

definition process_pdf_try :: "env \<Rightarrow> string \<Rightarrow> exc + dict" where
  "process_pdf_try env gcs_path =
     (let page_texts = extract_text_from_pdf (vision_ocr env gcs_path);
          full_text = full_text_of page_texts
      in case summarize_pitch_deck env full_text of
           Inl e \<Rightarrow> Inl e
         | Inr concise_summary \<Rightarrow>
            (case py_index concise_summary ''founder_response'' of
               Inl e \<Rightarrow> Inl e
             | Inr founder \<Rightarrow>
                (case py_index concise_summary ''sector_response'' of
                   Inl e \<Rightarrow> Inl e
                 | Inr sector \<Rightarrow>
                    (case py_index concise_summary ''summary_res'' of
                       Inl e \<Rightarrow> Inl e
                     | Inr summary \<Rightarrow>
                        (case py_index concise_summary ''company_name_response'' of
                           Inl e \<Rightarrow> Inl e
                         | Inr company \<Rightarrow>
                            Inr [(''raw'', raw_pages page_texts),
                                 (''concise'', summary),
                                 (''founder_response'', founder),
                                 (''sector_response'', sector),
                                 (''company_name_response'', company)])))))"

definition ocr_error_result :: dict where
  "ocr_error_result =
     [(''raw'', VDict [(''1'', VStr [])]), (''concise'', VStr ''Error in OCR processing.'')]"

definition process_pdf :: "env \<Rightarrow> string \<Rightarrow> dict" where
  "process_pdf env gcs_path =
     (case process_pdf_try env gcs_path of Inl e \<Rightarrow> ocr_error_result | Inr d \<Rightarrow> d)"

section \<open>The Deal Store\<close>

text \<open>
  Modelled from the spec: \<open>FirestoreManager\<close> (\<open>utils/firestore_utils.py\<close>) is not among
  the sources. The spec gives the store as a keyed record store, one record per deal
  with the sub-documents \<open>metadata\<close>, \<open>raw_files\<close>, \<open>extracted_text\<close>, \<open>public_data\<close> and
  \<open>memo\<close>, whose update is a merge of field paths into the record and not an overwrite
  of the whole record. A field path such as \<open>metadata.status\<close> is the list of its
  segments. The spec does not say what the update of an unknown deal does; here it
  raises, and the theorems below are about deals that exist. Every write is one atomic
  step. The store keeps a log of its writes, oldest first: the deal, the fields
  written and the record as it stands after the write.
\<close>

type_synonym patch = "(string list \<times> val) list"

record store_write =
  w_deal :: string
  w_patch :: patch
  w_doc :: dict

record db =
  docs :: "string \<Rightarrow> dict option"
  writes :: "store_write list"

definition sub_dict :: "dict \<Rightarrow> string \<Rightarrow> dict" where
  "sub_dict d k = (case map_of d k of Some (VDict sub) \<Rightarrow> sub | _ \<Rightarrow> [])"

fun set_path :: "string list \<Rightarrow> val \<Rightarrow> dict \<Rightarrow> dict" where
  "set_path [] v d = d"
| "set_path [k] v d = AList.update k v d"
| "set_path (k # k' # ks) v d = AList.update k (VDict (set_path (k' # ks) v (sub_dict d k))) d"

definition merge_patch :: "patch \<Rightarrow> dict \<Rightarrow> dict" where
  "merge_patch p d = fold (\<lambda>f. set_path (fst f) (snd f)) p d"

definition put_doc :: "string \<Rightarrow> patch \<Rightarrow> dict \<Rightarrow> db \<Rightarrow> db" where
  "put_doc deal_id p d s =
     \<lparr>docs = (docs s)(deal_id \<mapsto> d),
      writes = writes s @ [\<lparr>w_deal = deal_id, w_patch = p, w_doc = d\<rparr>]\<rparr>"


definition update_deal :: "string \<Rightarrow> patch \<Rightarrow> db \<Rightarrow> exc + db" where
  "update_deal deal_id p s =
     (case docs s deal_id of
        None \<Rightarrow> Inl (ServiceError ''No document to update'')
      | Some d \<Rightarrow> Inr (put_doc deal_id p (merge_patch p d) s))"

definition get_deal :: "string \<Rightarrow> db \<Rightarrow> dict option" where
  "get_deal deal_id s = docs s deal_id"

text \<open>\<open>deal_data.get('metadata', {}).get('status')\<close> of a record, when it is there.\<close>

definition deal_status :: "dict \<Rightarrow> val option" where
  "deal_status d = map_of (sub_dict d ''metadata'') ''status''"

section \<open>The orchestrator: \<open>main.py\<close>\<close>

subsection \<open>\<open>upload_deal\<close>\<close>

text \<open>
  The identifier is the six hexadecimal digits drawn by the caller. The uploaded file is
  a required parameter, so line 99 always takes its branch. The result is the response
  and the arguments of the background task that line 108 schedules.
\<close>

type_synonym file_urls = "(string \<times> string) list"




subsection \<open>\<open>process_deal\<close>\<close>

text \<open>Lines 186-197: the extracted text and \<open>temp_res\<close>.\<close>

definition read_pitch_deck :: "env \<Rightarrow> file_urls \<Rightarrow> exc + dict \<times> dict" where
  "read_pitch_deck env file_urls =
     (case map_of file_urls ''pitch_deck_url'' of
        None \<Rightarrow> Inr ([], [])
      | Some url \<Rightarrow>
         (let pdf_data = process_pdf env url
          in case py_index (VDict pdf_data) ''raw'' of
               Inl e \<Rightarrow> Inl e
             | Inr raw \<Rightarrow>
                (case py_index (VDict pdf_data) ''concise'' of
                   Inl e \<Rightarrow> Inl e
                 | Inr concise \<Rightarrow>
                    Inr ([(''pitch_deck'', VDict [(''raw'', raw), (''concise'', concise)])],
                         pdf_data))))"

text \<open>Lines 207-208: the record is read back for a company name that is not used.\<close>

definition read_company_name :: "string \<Rightarrow> db \<Rightarrow> exc + val" where
  "read_company_name deal_id s =
     (case get_deal deal_id s of
        None \<Rightarrow> Inl (TypeError ''NoneType object is not subscriptable'')
      | Some deal_data \<Rightarrow>
         (case py_index (VDict deal_data) ''metadata'' of
            Inl e \<Rightarrow> Inl e
          | Inr md \<Rightarrow> py_get md ''company_name'' (VStr [])))"

text \<open>
  Lines 186-219, between the two writes: everything the commit needs. The three entries
  of \<open>temp_res\<close> are indexed for the enrichment call and again for the commit; the
  dictionary does not change in between, so the model indexes once.
\<close>

definition prepare_commit :: "env \<Rightarrow> string \<Rightarrow> file_urls \<Rightarrow> db \<Rightarrow> exc + patch" where
  "prepare_commit env deal_id file_urls s =
     (case read_pitch_deck env file_urls of
        Inl e \<Rightarrow> Inl e
      | Inr (extracted_text, temp_res) \<Rightarrow>
         (case read_company_name deal_id s of
            Inl e \<Rightarrow> Inl e
          | Inr company_name \<Rightarrow>
             (case py_index (VDict temp_res) ''company_name_response'' of
                Inl e \<Rightarrow> Inl e
              | Inr company \<Rightarrow>
                 (case py_index (VDict temp_res) ''founder_response'' of
                    Inl e \<Rightarrow> Inl e
                  | Inr founder \<Rightarrow>
                     (case py_index (VDict temp_res) ''sector_response'' of
                        Inl e \<Rightarrow> Inl e
                      | Inr sector \<Rightarrow>
                         (case gather_data env company founder sector of
                            Inl e \<Rightarrow> Inl e
                          | Inr public_data \<Rightarrow>
                             Inr [([''extracted_text''], VDict extracted_text),
                                  ([''public_data''], public_data),
                                  ([''metadata'', ''status''], VStr ''processed''),
                                  ([''metadata'', ''processed_at''], VTime (utcnow env)),
                                  ([''metadata'', ''company_name''], company),
                                  ([''metadata'', ''founder_names''], founder),
                                  ([''metadata'', ''sector''], sector)]))))))"

text \<open>
  The body of the \<open>try\<close>, lines 184-222: the store as the body leaves it, and the
  exception it raises, if any.
\<close>

definition process_deal_try :: "env \<Rightarrow> string \<Rightarrow> file_urls \<Rightarrow> db \<Rightarrow> db \<times> exc option" where
  "process_deal_try env deal_id file_urls s =
     (case update_deal deal_id [([''metadata'', ''status''], VStr ''processing'')] s of
        Inl e \<Rightarrow> (s, Some e)
      | Inr s1 \<Rightarrow>
         (case prepare_commit env deal_id file_urls s1 of
            Inl e \<Rightarrow> (s1, Some e)
          | Inr p \<Rightarrow>
             (case update_deal deal_id p s1 of
                Inl e \<Rightarrow> (s1, Some e)
              | Inr s2 \<Rightarrow> (s2, None))))"

text \<open>
  \<open>process_deal\<close> with its handler, lines 224-229. The result is the store at the end
  and the exception that leaves the task, if any: the write of the handler is all that
  can raise outside the \<open>try\<close>.
\<close>

definition process_deal :: "env \<Rightarrow> string \<Rightarrow> file_urls \<Rightarrow> db \<Rightarrow> db \<times> exc option" where
  "process_deal env deal_id file_urls s =
     (case process_deal_try env deal_id file_urls s of
        (s', None) \<Rightarrow> (s', None)
      | (s', Some e) \<Rightarrow>
         (case update_deal deal_id [([''metadata'', ''status''], VStr ''error''),
                                    ([''metadata'', ''error''], VStr (str_exc e))] s' of
            Inl e' \<Rightarrow> (s', Some e')
          | Inr s'' \<Rightarrow> (s'', None)))"

subsection \<open>\<open>generate_memo\<close>\<close>

record memo_response =
  mr_deal_id :: string
  mr_memo_text :: string
  mr_docx_url :: string
  mr_all_data :: "dict option"

text \<open>The body of the \<open>try\<close>, lines 142-173. The weighting is \<open>weightage.dict()\<close>.\<close>

definition generate_memo_try :: "env \<Rightarrow> string \<Rightarrow> val \<Rightarrow> db \<Rightarrow> db \<times> (exc + memo_response)" where
  "generate_memo_try env deal_id weightage s =
     (case get_deal deal_id s of
        None \<Rightarrow> (s, Inl (HTTPException 404 ''Deal not found''))
      | Some deal_data \<Rightarrow>
         (if deal_data = [] then (s, Inl (HTTPException 404 ''Deal not found''))
          else
            (case py_get (VDict deal_data) ''metadata'' (VDict []) of
               Inl e \<Rightarrow> (s, Inl e)
             | Inr md \<Rightarrow>
                (case py_get md ''status'' VNone of
                   Inl e \<Rightarrow> (s, Inl e)
                 | Inr st \<Rightarrow>
                    (if st \<noteq> VStr ''processed''
                     then (s, Inl (HTTPException 400 ''Deal processing not complete''))
                     else
                       (case update_deal deal_id [([''metadata'', ''weightage''], weightage)] s of
                          Inl e \<Rightarrow> (s, Inl e)
                        | Inr s1 \<Rightarrow>
                           (case summarizer_generate_memo env deal_data weightage of
                              Inl e \<Rightarrow> (s1, Inl e)
                            | Inr memo_text \<Rightarrow>
                               (case create_memo_docx env deal_id memo_text of
                                  Inl e \<Rightarrow> (s1, Inl e)
                                | Inr docx_url \<Rightarrow>
                                   (let deal_data_to_Send = get_deal deal_id s1;
                                        memo_data = VDict [(''draft_v1'', VStr memo_text),
                                                           (''docx_url'', VStr docx_url),
                                                           (''generated_at'', VTime (utcnow env))]
                                    in case update_deal deal_id [([''memo''], memo_data)] s1 of
                                         Inl e \<Rightarrow> (s1, Inl e)
                                       | Inr s2 \<Rightarrow>
                                          (s2, Inr \<lparr>mr_deal_id = deal_id,
                                                    mr_memo_text = memo_text,
                                                    mr_docx_url = docx_url,
                                                    mr_all_data = deal_data_to_Send\<rparr>))))))))))"

text \<open>
  The endpoint, lines 175-177: \<open>except Exception\<close> also catches the \<open>HTTPException\<close>
  that the body raises itself.
\<close>

definition generate_memo :: "env \<Rightarrow> string \<Rightarrow> val \<Rightarrow> db \<Rightarrow> db \<times> (exc + memo_response)" where
  "generate_memo env deal_id weightage s =
     (case generate_memo_try env deal_id weightage s of
        (s', Inl e) \<Rightarrow> (s', Inl (HTTPException 500 (str_exc e)))
      | (s', Inr r) \<Rightarrow> (s', Inr r))"

subsection \<open>Requests over time\<close>









subsection \<open>The stages of \<open>process_deal\<close>\<close>

text \<open>
  Names for what \<open>process_deal\<close> writes: the record and the store after the first write
  (status \<open>processing\<close>), and the fields the handler writes.
\<close>

definition processing_doc :: "dict \<Rightarrow> dict" where
  "processing_doc d = merge_patch [([''metadata'', ''status''], VStr ''processing'')] d"

definition processing_db :: "string \<Rightarrow> dict \<Rightarrow> db \<Rightarrow> db" where
  "processing_db deal_id d s =
     put_doc deal_id [([''metadata'', ''status''], VStr ''processing'')] (processing_doc d) s"

definition error_patch :: "exc \<Rightarrow> patch" where
  "error_patch e = [([''metadata'', ''status''], VStr ''error''), ([''metadata'', ''error''], VStr (str_exc e))]"

section \<open>Sample inputs\<close>

text \<open>A page with recognised text, and an artifact that parsed to a list of page responses.\<close>

definition text_page :: "string \<Rightarrow> val" where
  "text_page t = VDict [(''fullTextAnnotation'', VDict [(''text'', VStr t)])]"

definition artifact :: "string \<Rightarrow> val list \<Rightarrow> blob" where
  "artifact n rs = \<lparr>name = n, body = Inr (VDict [(''responses'', VList rs)])\<rparr>"

text \<open>
  Services that all answer: a deck of two pages, a summary with the three entities, an
  empty enrichment result, a memo and its document.
\<close>

definition env_ok :: env where
  "env_ok =
     \<lparr>vision_ocr = (\<lambda>p. Inr [artifact ''vision-output/pitch_deck.pdf/0a1b2c3d/output-1-to-2.json''
                                [text_page ''Acme Robotics'', text_page ''Team'']]),
      summarize_pitch_deck = (\<lambda>t. Inr (VDict [(''summary_res'', VStr ''Robots for warehouses''),
                                               (''founder_response'', VStr ''A. Founder''),
                                               (''sector_response'', VStr ''Robotics''),
                                               (''company_name_response'', VStr ''Acme Robotics'')])),
      summarizer_generate_memo = (\<lambda>d w. Inr ''Memo''),
      gather_data = (\<lambda>c f x. Inr (VDict [])),
      create_memo_docx = (\<lambda>d m. Inr ''gs://bucket/memos/memo.docx''),
      upload_file = (\<lambda>p. Inr (''gs://bucket/'' @ p)),
      metadata_defaults = [],
      utcnow = 0\<rparr>"

text \<open>The same services with the enrichment call failing, and with the OCR run failing.\<close>

definition env_search_down :: env where
  "env_search_down = env_ok\<lparr>gather_data := (\<lambda>c f x. Inl (ServiceError ''search unavailable''))\<rparr>"

definition env_ocr_down :: env where
  "env_ocr_down = env_ok\<lparr>vision_ocr := (\<lambda>p. Inl (ServiceError ''Deadline exceeded''))\<rparr>"

text \<open>A deal as the upload leaves it, and the store that holds it.\<close>

definition uploaded_doc :: dict where
  "uploaded_doc =
     [(''metadata'', VDict [(''deal_id'', VStr ''ab12cd''), (''status'', VStr ''uploading''),
                            (''created_at'', VTime 0)]),
      (''raw_files'', VDict [(''pitch_deck_url'', VStr ''gs://bucket/deals/ab12cd/pitch_deck.pdf'')])]"

definition uploaded_db :: db where
  "uploaded_db = \<lparr>docs = (\<lambda>k. if k = ''ab12cd'' then Some uploaded_doc else None), writes = []\<rparr>"

definition deck_urls :: file_urls where
  "deck_urls = [(''pitch_deck_url'', ''gs://bucket/deals/ab12cd/pitch_deck.pdf'')]"

section \<open>Properties of text extraction\<close>

lemma concat_exc_Nil: "concat_exc f [] = Inr []"
  by (simp add: concat_exc_def)

lemma concat_exc_Cons:
  "concat_exc f (x # xs) =
     (case f x of Inl e \<Rightarrow> Inl e
      | Inr ys \<Rightarrow> (case concat_exc f xs of Inl e \<Rightarrow> Inl e | Inr zs \<Rightarrow> Inr (ys @ zs)))"
  by (simp add: concat_exc_def split: sum.splits)

lemma concat_exc_skip: "f x = Inr [] \<Longrightarrow> concat_exc f (x # xs) = concat_exc f xs"
  by (simp add: concat_exc_Cons split: sum.splits)


lemma concat_exc_filter:
  "(\<And>x. x \<in> set xs \<Longrightarrow> \<not> P x \<Longrightarrow> f x = Inr []) \<Longrightarrow> concat_exc f (filter P xs) = concat_exc f xs"
  by (induction xs) (auto simp: concat_exc_Cons split: sum.splits)





lemma sort_key_name_perm:
  fixes bs bs' :: "blob list"
  assumes "mset bs' = mset bs" "sorted (map name bs)" "distinct (map name bs)"
  shows "sort_key name bs' = bs"
proof (rule properties_for_sort_key)
  show "mset bs = mset bs'" using assms(1) by simp
  show "sorted (map name bs)" by fact
  fix k assume k: "k \<in> set bs"
  have d': "distinct (map name bs')"
    using assms(1,3) by (metis mset_map mset_eq_imp_distinct_iff)
  have k': "k \<in> set bs'" using k assms(1) by (metis mset_eq_setD)
  have one: "\<And>xs. distinct (map name xs) \<Longrightarrow> k \<in> set xs \<Longrightarrow> filter (\<lambda>x. name k = name x) xs = [k]"
  proof -
    fix xs :: "blob list"
    show "distinct (map name xs) \<Longrightarrow> k \<in> set xs \<Longrightarrow> filter (\<lambda>x. name k = name x) xs = [k]"
      by (induction xs) (auto simp: image_iff)
  qed
  show "filter (\<lambda>x. name k = name x) bs = filter (\<lambda>x. name k = name x) bs'"
    using one [OF assms(3) k] one [OF d' k'] by simp
qed








text \<open>
  Claim C9. \<open>_extract_text_from_pdf\<close> returns a non-empty list for every input: when the
  OCR run, the listing, a download or the parsing raises, and when no page has text, the
  result is exactly the list holding one empty string; otherwise it is the texts read.
\<close>

theorem extract_text_never_empty:
  "(\<exists>t ts. extract_text_from_pdf ocr = t # ts) \<and>
   (\<forall>e. ocr = Inl e \<longrightarrow> extract_text_from_pdf ocr = [[]]) \<and>
   (\<forall>blobs e. ocr = Inr blobs \<and> read_blobs blobs = Inl e \<longrightarrow> extract_text_from_pdf ocr = [[]]) \<and>
   (\<forall>blobs. ocr = Inr blobs \<and> read_blobs blobs = Inr [] \<longrightarrow> extract_text_from_pdf ocr = [[]]) \<and>
   (\<forall>blobs texts. ocr = Inr blobs \<and> read_blobs blobs = Inr texts \<and> texts \<noteq> []
      \<longrightarrow> extract_text_from_pdf ocr = texts)"
  by (auto simp: extract_text_from_pdf_def neq_Nil_conv split: sum.splits)

theorem extract_text_never_empty_witness:
  "extract_text_from_pdf (Inl (ServiceError ''Deadline exceeded'')) = [[]] \<and>
   extract_text_from_pdf (Inr [\<lparr>name = ''out/output-1-to-1.json'', body = Inl (ServiceError ''Expecting value'')\<rparr>]) = [[]]"
proof -
  have "read_blobs [\<lparr>name = ''out/output-1-to-1.json'', body = Inl (ServiceError ''Expecting value'')\<rparr>]
          = Inl (ServiceError ''Expecting value'')"
    by (simp add: read_blobs_def concat_exc_def blob_texts_def endswith_def)
  then show ?thesis
    using extract_text_never_empty [of "Inl (ServiceError ''Deadline exceeded'')"]
      extract_text_never_empty [of "Inr [\<lparr>name = ''out/output-1-to-1.json'', body = Inl (ServiceError ''Expecting value'')\<rparr>]"]
    by simp
qed




text \<open>
  Claim C8. Whatever the order in which the artifacts are listed, the texts are those of
  the artifacts taken in the lexicographic order of their names, and an artifact whose
  name does not end in \<open>.json\<close> contributes nothing. Names in a bucket are distinct.
\<close>

theorem artifacts_read_in_name_order:
  fixes bs bs' :: "blob list"
  assumes "mset bs' = mset bs" "sorted (map name bs)" "distinct (map name bs)"
  shows "read_blobs bs' = concat_exc blob_texts (filter (\<lambda>b. endswith (name b) ''.json'') bs)
         \<and> extract_text_from_pdf (Inr bs') = extract_text_from_pdf (Inr bs)"
proof -
  have s': "sort_key name bs' = bs" using assms by (rule sort_key_name_perm)
  have s: "sort_key name bs = bs" using assms(2,3) sort_key_name_perm [of bs bs] by simp
  have "concat_exc blob_texts (filter (\<lambda>b. endswith (name b) ''.json'') bs) = concat_exc blob_texts bs"
    by (rule concat_exc_filter) (simp add: blob_texts_def)
  then show ?thesis using s s' by (simp add: read_blobs_def extract_text_from_pdf_def)
qed

theorem artifacts_read_in_name_order_witness:
  "read_blobs [artifact ''o/p-2.json'' [text_page ''two''], artifact ''o/p-10.json'' [text_page ''ten''],
               artifact ''o/p-10.txt'' [text_page ''note'']]
   = Inr [''ten'', ''two'']"
proof -
  let ?a = "artifact ''o/p-10.json'' [text_page ''ten'']"
  let ?b = "artifact ''o/p-10.txt'' [text_page ''note'']"
  let ?c = "artifact ''o/p-2.json'' [text_page ''two'']"
  have m: "mset [?c, ?a, ?b] = mset [?a, ?b, ?c]" by (simp add: add.commute)
  have so: "sorted (map name [?a, ?b, ?c])" by (simp add: artifact_def)
  have d: "distinct (map name [?a, ?b, ?c])" by (simp add: artifact_def)
  show ?thesis
    using artifacts_read_in_name_order [OF m so d]
    by (simp add: artifact_def text_page_def concat_exc_def blob_texts_def resp_texts_def
        endswith_def strip_def is_space_def)
qed

section \<open>Properties of the Deal Store and of the Process stage\<close>

lemma map_of_set_path1: "map_of (set_path [k] v d) = (map_of d)(k \<mapsto> v)"
  by (simp add: update_conv')

lemma map_of_set_path2:
  "map_of (set_path [k, f] v d) = (map_of d)(k \<mapsto> VDict (AList.update f v (sub_dict d k)))"
  by (simp add: update_conv')

lemma sub_dict_set_path1: "k' \<noteq> k \<Longrightarrow> sub_dict (set_path [k'] v d) k = sub_dict d k"
  by (simp add: sub_dict_def map_of_set_path1 del: set_path.simps)

lemma sub_dict_set_path2:
  "sub_dict (set_path [k', f] v d) k = (if k' = k then AList.update f v (sub_dict d k) else sub_dict d k)"
  by (simp add: sub_dict_def [of "set_path [k', f] v d"] map_of_set_path2 del: set_path.simps)
    (simp add: sub_dict_def)

lemma deal_status_set_path1: "k \<noteq> ''metadata'' \<Longrightarrow> deal_status (set_path [k] v d) = deal_status d"
  by (simp add: deal_status_def sub_dict_set_path1 del: set_path.simps)

lemma deal_status_set_path2:
  "deal_status (set_path [''metadata'', f] v d) = (if f = ''status'' then Some v else deal_status d)"
  by (simp add: deal_status_def sub_dict_set_path2 update_conv' del: set_path.simps)

lemma docs_put_doc: "docs (put_doc deal_id p d s) = (docs s)(deal_id \<mapsto> d)"
  by (simp add: put_doc_def)

lemma writes_put_doc:
  "writes (put_doc deal_id p d s) = writes s @ [\<lparr>w_deal = deal_id, w_patch = p, w_doc = d\<rparr>]"
  by (simp add: put_doc_def)

lemma update_deal_Some:
  "docs s deal_id = Some d \<Longrightarrow> update_deal deal_id p s = Inr (put_doc deal_id p (merge_patch p d) s)"
  by (simp add: update_deal_def)

lemma update_deal_None:
  "docs s deal_id = None \<Longrightarrow> update_deal deal_id p s = Inl (ServiceError ''No document to update'')"
  by (simp add: update_deal_def)

lemma read_company_name_processing:
  "\<exists>c. read_company_name deal_id (processing_db deal_id d s) = Inr c"
  by (simp add: read_company_name_def get_deal_def processing_db_def processing_doc_def docs_put_doc
      merge_patch_def update_conv')

lemma process_deal_try_exists:
  assumes "docs s deal_id = Some d"
  shows "process_deal_try env deal_id file_urls s =
     (case prepare_commit env deal_id file_urls (processing_db deal_id d s) of
        Inl e \<Rightarrow> (processing_db deal_id d s, Some e)
      | Inr p \<Rightarrow> (put_doc deal_id p (merge_patch p (processing_doc d)) (processing_db deal_id d s), None))"
  using assms
  by (simp add: process_deal_try_def update_deal_Some processing_db_def [symmetric]
      processing_doc_def [symmetric] del: merge_patch_def)
    (simp add: processing_db_def update_deal_def docs_put_doc split: sum.splits)

lemma process_deal_exists:
  assumes "docs s deal_id = Some d"
  shows "process_deal env deal_id file_urls s =
     (case prepare_commit env deal_id file_urls (processing_db deal_id d s) of
        Inl e \<Rightarrow> (put_doc deal_id (error_patch e) (merge_patch (error_patch e) (processing_doc d))
                    (processing_db deal_id d s), None)
      | Inr p \<Rightarrow> (put_doc deal_id p (merge_patch p (processing_doc d)) (processing_db deal_id d s), None))"
  by (simp add: process_deal_def process_deal_try_exists [OF assms] error_patch_def [symmetric]
      split: sum.splits)
    (simp add: processing_db_def update_deal_def docs_put_doc)

lemma process_deal_try_missing:
  "docs s deal_id = None \<Longrightarrow> process_deal_try env deal_id file_urls s = (s, Some (ServiceError ''No document to update''))"
  by (simp add: process_deal_try_def update_deal_None)


lemma writes_processing_db:
  "writes (processing_db deal_id d s) = writes s @
     [\<lparr>w_deal = deal_id, w_patch = [([''metadata'', ''status''], VStr ''processing'')],
       w_doc = processing_doc d\<rparr>]"
  by (simp add: processing_db_def writes_put_doc)

lemma docs_processing_db: "docs (processing_db deal_id d s) = (docs s)(deal_id \<mapsto> processing_doc d)"
  by (simp add: processing_db_def docs_put_doc)

lemma prepare_commit_Inr:
  "prepare_commit env deal_id file_urls s = Inr p \<Longrightarrow>
     \<exists>extracted_text public_data company founder sector.
       p = [([''extracted_text''], VDict extracted_text),
            ([''public_data''], public_data),
            ([''metadata'', ''status''], VStr ''processed''),
            ([''metadata'', ''processed_at''], VTime (utcnow env)),
            ([''metadata'', ''company_name''], company),
            ([''metadata'', ''founder_names''], founder),
            ([''metadata'', ''sector''], sector)]"
  by (auto simp: prepare_commit_def split: sum.splits prod.splits)

lemma deal_status_commit:
  "deal_status (merge_patch [([''extracted_text''], a), ([''public_data''], b),
            ([''metadata'', ''status''], v), ([''metadata'', ''processed_at''], t),
            ([''metadata'', ''company_name''], c), ([''metadata'', ''founder_names''], f),
            ([''metadata'', ''sector''], x)] d) = Some v"
  by (simp add: merge_patch_def deal_status_set_path1 deal_status_set_path2 del: set_path.simps)

lemma deal_status_processing: "deal_status (processing_doc d) = Some (VStr ''processing'')"
  by (simp add: processing_doc_def merge_patch_def deal_status_set_path2 del: set_path.simps)

lemma deal_status_error: "deal_status (merge_patch (error_patch e) d) = Some (VStr ''error'')"
  by (simp add: error_patch_def merge_patch_def deal_status_set_path2 del: set_path.simps)

lemma error_field_error:
  "map_of (sub_dict (merge_patch (error_patch e) d) ''metadata'') ''error'' = Some (VStr (str_exc e))"
  by (simp add: error_patch_def merge_patch_def sub_dict_set_path2 update_conv' del: set_path.simps)

lemma error_patch_top:
  "k \<noteq> ''metadata'' \<Longrightarrow> map_of (merge_patch (error_patch e) (processing_doc d)) k = map_of d k"
  by (simp add: error_patch_def processing_doc_def merge_patch_def map_of_set_path2 del: set_path.simps)

lemma error_patch_metadata:
  "f \<noteq> ''status'' \<Longrightarrow> f \<noteq> ''error'' \<Longrightarrow>
     map_of (sub_dict (merge_patch (error_patch e) (processing_doc d)) ''metadata'') f
       = map_of (sub_dict d ''metadata'') f"
  by (simp add: error_patch_def processing_doc_def merge_patch_def sub_dict_set_path2 update_conv'
      del: set_path.simps)

text \<open>
  Claim C7. When the Process stage succeeds it has made exactly two writes: the status
  \<open>processing\<close>, and then one write that merges \<open>extracted_text\<close>, \<open>public_data\<close>, the
  status \<open>processed\<close>, \<open>processed_at\<close> and the three entity fields of the metadata, all
  together, into the record as it stood.
\<close>

theorem process_commit_is_one_write:
  assumes "process_deal_try env deal_id file_urls s = (s', None)"
  shows "\<exists>d w0 w extracted_text public_data company founder sector.
     docs s deal_id = Some d \<and>
     process_deal env deal_id file_urls s = (s', None) \<and>
     writes s' = writes s @ [w0, w] \<and>
     w_patch w0 = [([''metadata'', ''status''], VStr ''processing'')] \<and>
     w_deal w = deal_id \<and>
     w_patch w = [([''extracted_text''], VDict extracted_text),
                  ([''public_data''], public_data),
                  ([''metadata'', ''status''], VStr ''processed''),
                  ([''metadata'', ''processed_at''], VTime (utcnow env)),
                  ([''metadata'', ''company_name''], company),
                  ([''metadata'', ''founder_names''], founder),
                  ([''metadata'', ''sector''], sector)] \<and>
     w_doc w = merge_patch (w_patch w) (w_doc w0) \<and>
     docs s' deal_id = Some (w_doc w) \<and>
     deal_status (w_doc w) = Some (VStr ''processed'')"
proof (cases "docs s deal_id")
  case None
  then show ?thesis using assms by (simp add: process_deal_try_missing)
next
  case (Some d)
  from assms obtain p where p: "prepare_commit env deal_id file_urls (processing_db deal_id d s) = Inr p"
    and s': "s' = put_doc deal_id p (merge_patch p (processing_doc d)) (processing_db deal_id d s)"
    by (auto simp: process_deal_try_exists [OF Some] split: sum.splits)
  from prepare_commit_Inr [OF p] obtain extracted_text public_data company founder sector where
    pe: "p = [([''extracted_text''], VDict extracted_text),
            ([''public_data''], public_data),
            ([''metadata'', ''status''], VStr ''processed''),
            ([''metadata'', ''processed_at''], VTime (utcnow env)),
            ([''metadata'', ''company_name''], company),
            ([''metadata'', ''founder_names''], founder),
            ([''metadata'', ''sector''], sector)]" by blast
  let ?first = "\<lparr>w_deal = deal_id, w_patch = [([''metadata'', ''status''], VStr ''processing'')],
               w_doc = processing_doc d\<rparr>"
  let ?commit = "\<lparr>w_deal = deal_id, w_patch = p, w_doc = merge_patch p (processing_doc d)\<rparr>"
  have 1: "process_deal env deal_id file_urls s = (s', None)"
    by (simp add: process_deal_def assms)
  have 2: "writes s' = writes s @ [?first, ?commit]"
    by (simp add: s' writes_put_doc writes_processing_db)
  have 3: "docs s' deal_id = Some (w_doc ?commit)"
    by (simp add: s' docs_put_doc)
  have 4: "deal_status (w_doc ?commit) = Some (VStr ''processed'')"
    unfolding pe by (simp add: deal_status_commit del: merge_patch_def)
  have 5: "w_patch ?commit = [([''extracted_text''], VDict extracted_text),
            ([''public_data''], public_data),
            ([''metadata'', ''status''], VStr ''processed''),
            ([''metadata'', ''processed_at''], VTime (utcnow env)),
            ([''metadata'', ''company_name''], company),
            ([''metadata'', ''founder_names''], founder),
            ([''metadata'', ''sector''], sector)]" using pe by simp
  have 6: "w_doc ?commit = merge_patch (w_patch ?commit) (w_doc ?first)" by simp
  have 7: "w_patch ?first = [([''metadata'', ''status''], VStr ''processing'')]" "w_deal ?commit = deal_id" by simp_all
  show ?thesis
    apply (rule exI [of _ d], rule exI [of _ ?first], rule exI [of _ ?commit])
    apply (rule exI [of _ extracted_text], rule exI [of _ public_data])
    apply (rule exI [of _ company], rule exI [of _ founder], rule exI [of _ sector])
    using Some 1 2 3 4 5 6 7 apply (intro conjI)
            apply assumption+
    done
qed


text \<open>
  Claim C10. When \<open>file_urls\<close> has no key \<open>pitch_deck_url\<close>, whatever the services
  answer, the Process stage of a deal of the store writes the status \<open>processing\<close> and
  then the status \<open>error\<close>, with the \<open>KeyError\<close> of \<open>company_name_response\<close> as the
  message: it never writes \<open>processed\<close>.
\<close>

theorem no_pitch_deck_ends_in_error:
  assumes "docs s deal_id = Some d" "map_of file_urls ''pitch_deck_url'' = None"
  shows "\<exists>s' w0 w1. process_deal env deal_id file_urls s = (s', None) \<and>
     writes s' = writes s @ [w0, w1] \<and>
     deal_status (w_doc w0) = Some (VStr ''processing'') \<and>
     deal_status (w_doc w1) = Some (VStr ''error'') \<and>
     map_of (sub_dict (w_doc w1) ''metadata'') ''error''
       = Some (VStr (str_exc (KeyError ''company_name_response''))) \<and>
     docs s' deal_id = Some (w_doc w1)"
proof -
  obtain c where c: "read_company_name deal_id (processing_db deal_id d s) = Inr c"
    using read_company_name_processing by blast
  have p: "prepare_commit env deal_id file_urls (processing_db deal_id d s)
             = Inl (KeyError ''company_name_response'')"
    using assms(2) c by (simp add: prepare_commit_def read_pitch_deck_def)
  show ?thesis
    by (simp add: process_deal_exists [OF assms(1)] p writes_put_doc docs_put_doc writes_processing_db
        deal_status_processing deal_status_error error_field_error del: str_exc.simps)
qed


lemma uploaded_db_doc: "docs uploaded_db ''ab12cd'' = Some uploaded_doc"
  by (simp add: uploaded_db_def)

lemma read_company_name_uploaded:
  "read_company_name ''ab12cd'' (processing_db ''ab12cd'' uploaded_doc s) = Inr (VStr [])"
  by (simp add: read_company_name_def get_deal_def docs_processing_db processing_doc_def
      merge_patch_def uploaded_doc_def sub_dict_def)

lemma extract_env_ok:
  "extract_text_from_pdf (vision_ocr env_ok url) = [''Acme Robotics'', ''Team'']"
  by (simp add: env_ok_def extract_text_from_pdf_def read_blobs_def blob_texts_def concat_exc_def
      resp_texts_def artifact_def text_page_def endswith_def strip_def is_space_def)

lemma env_ok_fields:
  "summarize_pitch_deck env_ok t = Inr (VDict [(''summary_res'', VStr ''Robots for warehouses''),
                                               (''founder_response'', VStr ''A. Founder''),
                                               (''sector_response'', VStr ''Robotics''),
                                               (''company_name_response'', VStr ''Acme Robotics'')])"
  "gather_data env_ok c f x = Inr (VDict [])"
  "utcnow env_ok = 0"
  "summarizer_generate_memo env_ok dd w = Inr ''Memo''"
  "create_memo_docx env_ok i m = Inr ''gs://bucket/memos/memo.docx''"
  "upload_file env_ok p = Inr (''gs://bucket/'' @ p)"
  "metadata_defaults env_ok = []"
  by (simp_all add: env_ok_def)

lemma env_search_down_fields:
  "vision_ocr env_search_down = vision_ocr env_ok"
  "summarize_pitch_deck env_search_down = summarize_pitch_deck env_ok"
  "gather_data env_search_down c f x = Inl (ServiceError ''search unavailable'')"
  "utcnow env_search_down = 0"
  by (simp_all add: env_search_down_def env_ok_def)

lemma process_pdf_try_env_ok:
  "process_pdf_try env_ok url =
     Inr [(''raw'', VDict [(''1'', VStr ''Acme Robotics''), (''2'', VStr ''Team'')]),
          (''concise'', VStr ''Robots for warehouses''),
          (''founder_response'', VStr ''A. Founder''),
          (''sector_response'', VStr ''Robotics''),
          (''company_name_response'', VStr ''Acme Robotics'')]"
  by (simp add: process_pdf_try_def extract_env_ok env_ok_fields raw_pages_def digit_char_def)

lemma process_pdf_try_search_down: "process_pdf_try env_search_down url = process_pdf_try env_ok url"
  by (simp add: process_pdf_try_def env_search_down_fields)

lemma read_pitch_deck_env_ok:
  "read_pitch_deck env_ok deck_urls =
     Inr ([(''pitch_deck'', VDict [(''raw'', VDict [(''1'', VStr ''Acme Robotics''), (''2'', VStr ''Team'')]),
                                   (''concise'', VStr ''Robots for warehouses'')])],
          [(''raw'', VDict [(''1'', VStr ''Acme Robotics''), (''2'', VStr ''Team'')]),
           (''concise'', VStr ''Robots for warehouses''),
           (''founder_response'', VStr ''A. Founder''),
           (''sector_response'', VStr ''Robotics''),
           (''company_name_response'', VStr ''Acme Robotics'')])"
  by (simp add: read_pitch_deck_def deck_urls_def process_pdf_def process_pdf_try_env_ok)

lemma read_pitch_deck_search_down: "read_pitch_deck env_search_down deck_urls = read_pitch_deck env_ok deck_urls"
  by (simp add: read_pitch_deck_def deck_urls_def process_pdf_def process_pdf_try_search_down)

lemma prepare_commit_env_ok:
  "prepare_commit env_ok ''ab12cd'' deck_urls (processing_db ''ab12cd'' uploaded_doc s) =
     Inr [([''extracted_text''],
            VDict [(''pitch_deck'', VDict [(''raw'', VDict [(''1'', VStr ''Acme Robotics''), (''2'', VStr ''Team'')]),
                                           (''concise'', VStr ''Robots for warehouses'')])]),
          ([''public_data''], VDict []),
          ([''metadata'', ''status''], VStr ''processed''),
          ([''metadata'', ''processed_at''], VTime 0),
          ([''metadata'', ''company_name''], VStr ''Acme Robotics''),
          ([''metadata'', ''founder_names''], VStr ''A. Founder''),
          ([''metadata'', ''sector''], VStr ''Robotics'')]"
  by (simp add: prepare_commit_def read_pitch_deck_env_ok read_company_name_uploaded env_ok_fields)

lemma prepare_commit_search_down:
  "prepare_commit env_search_down ''ab12cd'' deck_urls (processing_db ''ab12cd'' uploaded_doc s) =
     Inl (ServiceError ''search unavailable'')"
  by (simp add: prepare_commit_def read_pitch_deck_search_down read_pitch_deck_env_ok
      read_company_name_uploaded env_search_down_fields)

theorem process_commit_is_one_write_witness:
  "snd (process_deal_try env_ok ''ab12cd'' deck_urls uploaded_db) = None \<and>
   length (writes (fst (process_deal env_ok ''ab12cd'' deck_urls uploaded_db))) = 2 \<and>
   deal_status (the (docs (fst (process_deal env_ok ''ab12cd'' deck_urls uploaded_db)) ''ab12cd''))
     = Some (VStr ''processed'')"
proof -
  obtain s' where h: "process_deal_try env_ok ''ab12cd'' deck_urls uploaded_db = (s', None)"
    by (simp add: process_deal_try_exists [OF uploaded_db_doc] prepare_commit_env_ok)
  have "writes uploaded_db = []" by (simp add: uploaded_db_def)
  then show ?thesis using process_commit_is_one_write [OF h] h by auto
qed


theorem no_pitch_deck_ends_in_error_witness:
  "docs uploaded_db ''ab12cd'' = Some uploaded_doc \<and> map_of ([] :: file_urls) ''pitch_deck_url'' = None \<and>
   deal_status (the (docs (fst (process_deal env_ok ''ab12cd'' [] uploaded_db)) ''ab12cd''))
     = Some (VStr ''error'') \<and>
   map_of (sub_dict (the (docs (fst (process_deal env_ok ''ab12cd'' [] uploaded_db)) ''ab12cd'')) ''metadata'')
     ''error'' = Some (VStr [CHR 0x27, CHR ''c'', CHR ''o'', CHR ''m'', CHR ''p'', CHR ''a'', CHR ''n'', CHR ''y'',
        CHR ''_'', CHR ''n'', CHR ''a'', CHR ''m'', CHR ''e'', CHR ''_'', CHR ''r'', CHR ''e'', CHR ''s'', CHR ''p'',
        CHR ''o'', CHR ''n'', CHR ''s'', CHR ''e'', CHR 0x27])"
proof -
  have e: "map_of ([] :: file_urls) ''pitch_deck_url'' = None" by simp
  show ?thesis
    using no_pitch_deck_ends_in_error [OF uploaded_db_doc e, of env_ok] uploaded_db_doc
    by auto
qed

text \<open>
  Claim C1 as stated fails: extraction and summarization succeed, the enrichment call
  raises, and the record ends with the status \<open>error\<close> and without \<open>extracted_text\<close>.
\<close>

theorem enrichment_failure_counterexample:
  "read_pitch_deck env_search_down deck_urls =
     Inr ([(''pitch_deck'', VDict [(''raw'', VDict [(''1'', VStr ''Acme Robotics''), (''2'', VStr ''Team'')]),
                                   (''concise'', VStr ''Robots for warehouses'')])],
          [(''raw'', VDict [(''1'', VStr ''Acme Robotics''), (''2'', VStr ''Team'')]),
           (''concise'', VStr ''Robots for warehouses''),
           (''founder_response'', VStr ''A. Founder''),
           (''sector_response'', VStr ''Robotics''),
           (''company_name_response'', VStr ''Acme Robotics'')]) \<and>
   gather_data env_search_down (VStr ''Acme Robotics'') (VStr ''A. Founder'') (VStr ''Robotics'')
     = Inl (ServiceError ''search unavailable'') \<and>
   deal_status (the (docs (fst (process_deal env_search_down ''ab12cd'' deck_urls uploaded_db)) ''ab12cd''))
     = Some (VStr ''error'') \<and>
   map_of (the (docs (fst (process_deal env_search_down ''ab12cd'' deck_urls uploaded_db)) ''ab12cd''))
     ''extracted_text'' = None"
proof -
  let ?e = "ServiceError ''search unavailable''"
  let ?d = "merge_patch (error_patch ?e) (processing_doc uploaded_doc)"
  have pd: "process_deal env_search_down ''ab12cd'' deck_urls uploaded_db
      = (put_doc ''ab12cd'' (error_patch ?e) ?d (processing_db ''ab12cd'' uploaded_doc uploaded_db), None)"
    by (simp add: process_deal_exists [OF uploaded_db_doc] prepare_commit_search_down)
  have doc: "the (docs (fst (process_deal env_search_down ''ab12cd'' deck_urls uploaded_db)) ''ab12cd'') = ?d"
    by (simp add: pd docs_put_doc)
  have 1: "deal_status ?d = Some (VStr ''error'')" by (rule deal_status_error)
  have "map_of ?d ''extracted_text'' = map_of uploaded_doc ''extracted_text''"
    by (rule error_patch_top) simp
  then have 2: "map_of ?d ''extracted_text'' = None" by (simp add: uploaded_doc_def)
  have 3: "gather_data env_search_down (VStr ''Acme Robotics'') (VStr ''A. Founder'') (VStr ''Robotics'')
     = Inl ?e" by (simp add: env_search_down_fields)
  show ?thesis
    unfolding doc using 1 2 3 by (simp add: read_pitch_deck_search_down read_pitch_deck_env_ok)
qed

text \<open>
  Claim C1, amended. When the enrichment call raises after extraction and summarization
  succeeded, the status ends as \<open>error\<close> with the message recorded, and the stage has
  written nothing else: \<open>extracted_text\<close> is what it was before the stage, every field
  outside the metadata is unchanged, and so is every metadata field other than
  \<open>status\<close> and \<open>error\<close>. The same holds wherever the stage fails: a failure erases
  nothing that was committed earlier.
\<close>

theorem enrichment_failure_keeps_earlier_fields:
  assumes "docs s deal_id = Some d"
    and "read_pitch_deck env file_urls = Inr (extracted_text, temp_res)"
    and "py_index (VDict temp_res) ''company_name_response'' = Inr company"
    and "py_index (VDict temp_res) ''founder_response'' = Inr founder"
    and "py_index (VDict temp_res) ''sector_response'' = Inr sector"
    and "gather_data env company founder sector = Inl e"
  shows "(\<exists>s' d'. process_deal env deal_id file_urls s = (s', None) \<and>
     docs s' deal_id = Some d' \<and>
     deal_status d' = Some (VStr ''error'') \<and>
     map_of (sub_dict d' ''metadata'') ''error'' = Some (VStr (str_exc e)) \<and>
     map_of d' ''extracted_text'' = map_of d ''extracted_text'' \<and>
     (\<forall>k. k \<noteq> ''metadata'' \<longrightarrow> map_of d' k = map_of d k) \<and>
     (\<forall>f. f \<noteq> ''status'' \<and> f \<noteq> ''error''
        \<longrightarrow> map_of (sub_dict d' ''metadata'') f = map_of (sub_dict d ''metadata'') f)) \<and>
    (\<forall>env' urls s1 e'. process_deal_try env' deal_id urls s = (s1, Some e') \<longrightarrow>
      (\<exists>s' d'. process_deal env' deal_id urls s = (s', None) \<and>
         docs s' deal_id = Some d' \<and>
         (\<forall>k. k \<noteq> ''metadata'' \<longrightarrow> map_of d' k = map_of d k) \<and>
         (\<forall>f. f \<noteq> ''status'' \<and> f \<noteq> ''error''
            \<longrightarrow> map_of (sub_dict d' ''metadata'') f = map_of (sub_dict d ''metadata'') f)))"
proof (rule conjI)
  obtain c where c: "read_company_name deal_id (processing_db deal_id d s) = Inr c"
    using read_company_name_processing by blast
  have p: "prepare_commit env deal_id file_urls (processing_db deal_id d s) = Inl e"
    using assms(2-6) c by (simp add: prepare_commit_def)
  show "\<exists>s' d'. process_deal env deal_id file_urls s = (s', None) \<and>
     docs s' deal_id = Some d' \<and>
     deal_status d' = Some (VStr ''error'') \<and>
     map_of (sub_dict d' ''metadata'') ''error'' = Some (VStr (str_exc e)) \<and>
     map_of d' ''extracted_text'' = map_of d ''extracted_text'' \<and>
     (\<forall>k. k \<noteq> ''metadata'' \<longrightarrow> map_of d' k = map_of d k) \<and>
     (\<forall>f. f \<noteq> ''status'' \<and> f \<noteq> ''error''
        \<longrightarrow> map_of (sub_dict d' ''metadata'') f = map_of (sub_dict d ''metadata'') f)"
    by (simp add: process_deal_exists [OF assms(1)] p docs_put_doc deal_status_error
        error_field_error error_patch_top error_patch_metadata)
  show "\<forall>env' urls s1 e'. process_deal_try env' deal_id urls s = (s1, Some e') \<longrightarrow>
      (\<exists>s' d'. process_deal env' deal_id urls s = (s', None) \<and>
         docs s' deal_id = Some d' \<and>
         (\<forall>k. k \<noteq> ''metadata'' \<longrightarrow> map_of d' k = map_of d k) \<and>
         (\<forall>f. f \<noteq> ''status'' \<and> f \<noteq> ''error''
            \<longrightarrow> map_of (sub_dict d' ''metadata'') f = map_of (sub_dict d ''metadata'') f))"
    by (auto simp: process_deal_exists [OF assms(1)] process_deal_try_exists [OF assms(1)]
        docs_put_doc error_patch_top error_patch_metadata split: sum.splits)
qed

theorem enrichment_failure_keeps_earlier_fields_witness:
  "docs uploaded_db ''ab12cd'' = Some uploaded_doc \<and>
   map_of (the (docs (fst (process_deal env_search_down ''ab12cd'' deck_urls uploaded_db)) ''ab12cd''))
     ''raw_files'' = map_of uploaded_doc ''raw_files'' \<and>
   map_of (sub_dict (the (docs (fst (process_deal env_search_down ''ab12cd'' deck_urls uploaded_db)) ''ab12cd''))
     ''metadata'') ''created_at'' = Some (VTime 0)"
proof -
  have r: "read_pitch_deck env_search_down deck_urls =
     Inr ([(''pitch_deck'', VDict [(''raw'', VDict [(''1'', VStr ''Acme Robotics''), (''2'', VStr ''Team'')]),
                                   (''concise'', VStr ''Robots for warehouses'')])],
          [(''raw'', VDict [(''1'', VStr ''Acme Robotics''), (''2'', VStr ''Team'')]),
           (''concise'', VStr ''Robots for warehouses''),
           (''founder_response'', VStr ''A. Founder''),
           (''sector_response'', VStr ''Robotics''),
           (''company_name_response'', VStr ''Acme Robotics'')])"
    by (simp add: read_pitch_deck_search_down read_pitch_deck_env_ok)
  have g: "gather_data env_search_down (VStr ''Acme Robotics'') (VStr ''A. Founder'') (VStr ''Robotics'')
             = Inl (ServiceError ''search unavailable'')"
    by (simp add: env_search_down_fields)
  have m: "map_of (sub_dict uploaded_doc ''metadata'') ''created_at'' = Some (VTime 0)"
    by (simp add: uploaded_doc_def sub_dict_def)
  have i: "py_index (VDict [(''raw'', VDict [(''1'', VStr ''Acme Robotics''), (''2'', VStr ''Team'')]),
           (''concise'', VStr ''Robots for warehouses''),
           (''founder_response'', VStr ''A. Founder''),
           (''sector_response'', VStr ''Robotics''),
           (''company_name_response'', VStr ''Acme Robotics'')]) ''company_name_response''
        = Inr (VStr ''Acme Robotics'')"
    "py_index (VDict [(''raw'', VDict [(''1'', VStr ''Acme Robotics''), (''2'', VStr ''Team'')]),
           (''concise'', VStr ''Robots for warehouses''),
           (''founder_response'', VStr ''A. Founder''),
           (''sector_response'', VStr ''Robotics''),
           (''company_name_response'', VStr ''Acme Robotics'')]) ''founder_response''
        = Inr (VStr ''A. Founder'')"
    "py_index (VDict [(''raw'', VDict [(''1'', VStr ''Acme Robotics''), (''2'', VStr ''Team'')]),
           (''concise'', VStr ''Robots for warehouses''),
           (''founder_response'', VStr ''A. Founder''),
           (''sector_response'', VStr ''Robotics''),
           (''company_name_response'', VStr ''Acme Robotics'')]) ''sector_response''
        = Inr (VStr ''Robotics'')"
    by simp_all
  from enrichment_failure_keeps_earlier_fields [OF uploaded_db_doc r i g, THEN conjunct1]
  obtain s' d' where
    p: "process_deal env_search_down ''ab12cd'' deck_urls uploaded_db = (s', None)"
    and d: "docs s' ''ab12cd'' = Some d'"
    and t: "\<forall>k. k \<noteq> ''metadata'' \<longrightarrow> map_of d' k = map_of uploaded_doc k"
    and f: "\<forall>f. f \<noteq> ''status'' \<and> f \<noteq> ''error''
        \<longrightarrow> map_of (sub_dict d' ''metadata'') f = map_of (sub_dict uploaded_doc ''metadata'') f"
    by blast
  have "map_of d' ''raw_files'' = map_of uploaded_doc ''raw_files''" using t by simp
  moreover have "map_of (sub_dict d' ''metadata'') ''created_at'' = Some (VTime 0)" using f m by simp
  ultimately show ?thesis using p d uploaded_db_doc by simp
qed

lemma full_text_of_sentinel: "full_text_of [[]] = []"
  by (simp add: full_text_of_def)

lemma raw_pages_sentinel: "raw_pages [[]] = VDict [(''1'', VStr [])]"
  by (simp add: raw_pages_def digit_char_def)

lemma extract_no_artifacts: "extract_text_from_pdf (Inr []) = [[]]"
  by (simp add: extract_text_from_pdf_def read_blobs_def concat_exc_Nil)

lemma extract_failed:
  assumes "(\<exists>e. ocr = Inl e) \<or> (\<exists>bs e. ocr = Inr bs \<and> read_blobs bs = Inl e)"
  shows "extract_text_from_pdf ocr = [[]]"
  using assms by (auto simp: extract_text_from_pdf_def)

lemma prepare_commit_no_artifacts:
  assumes "map_of file_urls ''pitch_deck_url'' = Some url"
    and "extract_text_from_pdf (vision_ocr env url) = [[]]"
  shows "prepare_commit (env\<lparr>vision_ocr := \<lambda>p. Inr []\<rparr>) deal_id file_urls s1
           = prepare_commit env deal_id file_urls s1"
proof -
  have "process_pdf_try (env\<lparr>vision_ocr := \<lambda>p. Inr []\<rparr>) url = process_pdf_try env url"
    using assms(2) by (simp add: process_pdf_try_def extract_no_artifacts)
  then have "read_pitch_deck (env\<lparr>vision_ocr := \<lambda>p. Inr []\<rparr>) file_urls = read_pitch_deck env file_urls"
    using assms(1) by (simp add: read_pitch_deck_def process_pdf_def)
  then show ?thesis by (simp add: prepare_commit_def split: sum.splits prod.splits)
qed

lemma map_of_commit_extracted:
  "map_of (merge_patch [([''extracted_text''], a), ([''public_data''], b),
            ([''metadata'', ''status''], v), ([''metadata'', ''processed_at''], t),
            ([''metadata'', ''company_name''], c), ([''metadata'', ''founder_names''], f),
            ([''metadata'', ''sector''], x)] d) ''extracted_text'' = Some a"
  by (simp add: merge_patch_def map_of_set_path1 map_of_set_path2 del: set_path.simps)

text \<open>
  The handler of \<open>process_pdf\<close> itself (lines 65-68) is reached by a failure of the
  summarizer only, never by a failure of the extraction, which has its own handler.
\<close>

lemma process_pdf_handler_needs_summarizer_failure:
  "summarize_pitch_deck env (full_text_of (extract_text_from_pdf (vision_ocr env url))) = Inl e
     \<Longrightarrow> process_pdf env url = ocr_error_result"
  by (simp add: process_pdf_def process_pdf_try_def)

text \<open>
  Claim C3. When the OCR run, the listing, a download or the parsing raises, the
  extraction returns the single empty page, and the Process stage of a deal of the store
  goes on exactly as for a document without any text: the summarizer is called on the
  empty text, and when it and the enrichment answer, the deal ends \<open>processed\<close> with the
  one empty page as its raw text.
\<close>

theorem extraction_error_absorbed:
  assumes "docs s deal_id = Some d"
    and "map_of file_urls ''pitch_deck_url'' = Some url"
    and "(\<exists>e. vision_ocr env url = Inl e) \<or> (\<exists>bs e. vision_ocr env url = Inr bs \<and> read_blobs bs = Inl e)"
  shows "extract_text_from_pdf (vision_ocr env url) = [[]] \<and>
     process_deal env deal_id file_urls s
       = process_deal (env\<lparr>vision_ocr := \<lambda>p. Inr []\<rparr>) deal_id file_urls s \<and>
     (\<forall>summary concise company founder sector public_data.
        summarize_pitch_deck env [] = Inr (VDict summary) \<and>
        map_of summary ''summary_res'' = Some concise \<and>
        map_of summary ''company_name_response'' = Some company \<and>
        map_of summary ''founder_response'' = Some founder \<and>
        map_of summary ''sector_response'' = Some sector \<and>
        gather_data env company founder sector = Inr public_data
        \<longrightarrow> (\<exists>s' d'. process_deal env deal_id file_urls s = (s', None) \<and>
               docs s' deal_id = Some d' \<and>
               deal_status d' = Some (VStr ''processed'') \<and>
               map_of d' ''extracted_text''
                 = Some (VDict [(''pitch_deck'', VDict [(''raw'', VDict [(''1'', VStr [])]),
                                                       (''concise'', concise)])])))"
proof (intro conjI allI impI)
  show x: "extract_text_from_pdf (vision_ocr env url) = [[]]"
    using assms(3) by (rule extract_failed)
  show "process_deal env deal_id file_urls s
       = process_deal (env\<lparr>vision_ocr := \<lambda>p. Inr []\<rparr>) deal_id file_urls s"
    by (simp add: process_deal_exists [OF assms(1)] prepare_commit_no_artifacts [OF assms(2) x])
next
  fix summary concise company founder sector public_data
  assume a: "summarize_pitch_deck env [] = Inr (VDict summary) \<and>
        map_of summary ''summary_res'' = Some concise \<and>
        map_of summary ''company_name_response'' = Some company \<and>
        map_of summary ''founder_response'' = Some founder \<and>
        map_of summary ''sector_response'' = Some sector \<and>
        gather_data env company founder sector = Inr public_data"
  have x: "extract_text_from_pdf (vision_ocr env url) = [[]]"
    using assms(3) by (rule extract_failed)
  have pp: "process_pdf_try env url =
      Inr [(''raw'', VDict [(''1'', VStr [])]), (''concise'', concise),
           (''founder_response'', founder), (''sector_response'', sector),
           (''company_name_response'', company)]"
    using a by (simp add: process_pdf_try_def x full_text_of_sentinel raw_pages_sentinel)
  have rp: "read_pitch_deck env file_urls =
      Inr ([(''pitch_deck'', VDict [(''raw'', VDict [(''1'', VStr [])]), (''concise'', concise)])],
           [(''raw'', VDict [(''1'', VStr [])]), (''concise'', concise),
            (''founder_response'', founder), (''sector_response'', sector),
            (''company_name_response'', company)])"
    using assms(2) by (simp add: read_pitch_deck_def process_pdf_def pp)
  obtain c where c: "read_company_name deal_id (processing_db deal_id d s) = Inr c"
    using read_company_name_processing by blast
  have pc: "prepare_commit env deal_id file_urls (processing_db deal_id d s) =
      Inr [([''extracted_text''],
             VDict [(''pitch_deck'', VDict [(''raw'', VDict [(''1'', VStr [])]), (''concise'', concise)])]),
           ([''public_data''], public_data),
           ([''metadata'', ''status''], VStr ''processed''),
           ([''metadata'', ''processed_at''], VTime (utcnow env)),
           ([''metadata'', ''company_name''], company),
           ([''metadata'', ''founder_names''], founder),
           ([''metadata'', ''sector''], sector)]"
    using a by (simp add: prepare_commit_def rp c)
  show "\<exists>s' d'. process_deal env deal_id file_urls s = (s', None) \<and>
               docs s' deal_id = Some d' \<and>
               deal_status d' = Some (VStr ''processed'') \<and>
               map_of d' ''extracted_text''
                 = Some (VDict [(''pitch_deck'', VDict [(''raw'', VDict [(''1'', VStr [])]),
                                                       (''concise'', concise)])])"
    by (simp add: process_deal_exists [OF assms(1)] pc docs_put_doc deal_status_commit
        map_of_commit_extracted del: merge_patch_def)
qed

lemma env_ocr_down_fields:
  "vision_ocr env_ocr_down p = Inl (ServiceError ''Deadline exceeded'')"
  "summarize_pitch_deck env_ocr_down = summarize_pitch_deck env_ok"
  "gather_data env_ocr_down = gather_data env_ok"
  by (simp_all add: env_ocr_down_def)

theorem extraction_error_absorbed_witness:
  "docs uploaded_db ''ab12cd'' = Some uploaded_doc \<and>
   vision_ocr env_ocr_down ''gs://bucket/deals/ab12cd/pitch_deck.pdf'' = Inl (ServiceError ''Deadline exceeded'') \<and>
   snd (process_deal env_ocr_down ''ab12cd'' deck_urls uploaded_db) = None \<and>
   deal_status (the (docs (fst (process_deal env_ocr_down ''ab12cd'' deck_urls uploaded_db)) ''ab12cd''))
     = Some (VStr ''processed'')"
proof -
  have u: "map_of deck_urls ''pitch_deck_url'' = Some ''gs://bucket/deals/ab12cd/pitch_deck.pdf''"
    by (simp add: deck_urls_def)
  have v: "vision_ocr env_ocr_down ''gs://bucket/deals/ab12cd/pitch_deck.pdf'' = Inl (ServiceError ''Deadline exceeded'')"
    by (simp add: env_ocr_down_fields)
  then have f: "(\<exists>e. vision_ocr env_ocr_down ''gs://bucket/deals/ab12cd/pitch_deck.pdf'' = Inl e) \<or>
     (\<exists>bs e. vision_ocr env_ocr_down ''gs://bucket/deals/ab12cd/pitch_deck.pdf'' = Inr bs \<and> read_blobs bs = Inl e)"
    by simp
  have a: "summarize_pitch_deck env_ocr_down [] = Inr (VDict [(''summary_res'', VStr ''Robots for warehouses''),
                                               (''founder_response'', VStr ''A. Founder''),
                                               (''sector_response'', VStr ''Robotics''),
                                               (''company_name_response'', VStr ''Acme Robotics'')])"
    "gather_data env_ocr_down (VStr ''Acme Robotics'') (VStr ''A. Founder'') (VStr ''Robotics'') = Inr (VDict [])"
    by (simp_all add: env_ocr_down_fields env_ok_fields)
  from extraction_error_absorbed [OF uploaded_db_doc u f]
  have "\<forall>summary concise company founder sector public_data.
        summarize_pitch_deck env_ocr_down [] = Inr (VDict summary) \<and>
        map_of summary ''summary_res'' = Some concise \<and>
        map_of summary ''company_name_response'' = Some company \<and>
        map_of summary ''founder_response'' = Some founder \<and>
        map_of summary ''sector_response'' = Some sector \<and>
        gather_data env_ocr_down company founder sector = Inr public_data
        \<longrightarrow> (\<exists>s' d'. process_deal env_ocr_down ''ab12cd'' deck_urls uploaded_db = (s', None) \<and>
               docs s' ''ab12cd'' = Some d' \<and>
               deal_status d' = Some (VStr ''processed'') \<and>
               map_of d' ''extracted_text''
                 = Some (VDict [(''pitch_deck'', VDict [(''raw'', VDict [(''1'', VStr [])]),
                                                       (''concise'', concise)])]))"
    by blast
  from this [rule_format, of "[(''summary_res'', VStr ''Robots for warehouses''),
                                               (''founder_response'', VStr ''A. Founder''),
                                               (''sector_response'', VStr ''Robotics''),
                                               (''company_name_response'', VStr ''Acme Robotics'')]"
      "VStr ''Robots for warehouses''" "VStr ''Acme Robotics''" "VStr ''A. Founder''" "VStr ''Robotics''" "VDict []"] a
  obtain s' d' where "process_deal env_ocr_down ''ab12cd'' deck_urls uploaded_db = (s', None)"
    "docs s' ''ab12cd'' = Some d'" "deal_status d' = Some (VStr ''processed'')"
    by auto
  then show ?thesis using uploaded_db_doc v by simp
qed

section \<open>Properties of memo generation and of the status over time\<close>

lemma str_nat_400: "str_nat 400 = ''400''"
  by (simp add: digit_char_def)

text \<open>
  Claim C2. A request for a memo of a deal whose status is not \<open>processed\<close> writes
  nothing to the store, but it is not answered with the status 400 that the body
  raises: the handler of the endpoint catches that exception with all the others and
  answers 500, the text of the 400 as its detail.
\<close>

theorem memo_before_processed_answers_500:
  assumes "docs s deal_id = Some d"
    and "map_of d ''metadata'' = Some (VDict md)"
    and "map_of md ''status'' \<noteq> Some (VStr ''processed'')"
  shows "generate_memo env deal_id weightage s
     = (s, Inl (HTTPException 500 (str_exc (HTTPException 400 ''Deal processing not complete''))))"
proof -
  have "d \<noteq> []" using assms(2) by auto
  moreover have "(case map_of md ''status'' of None \<Rightarrow> VNone | Some v \<Rightarrow> v) \<noteq> VStr ''processed''"
    using assms(3) by (cases "map_of md ''status''") auto
  ultimately have "generate_memo_try env deal_id weightage s
     = (s, Inl (HTTPException 400 ''Deal processing not complete''))"
    using assms(1,2) by (simp add: generate_memo_try_def get_deal_def)
  then show ?thesis by (simp add: generate_memo_def del: str_exc.simps)
qed

theorem memo_before_processed_answers_500_witness:
  "generate_memo env_ok ''ab12cd'' (VDict [(''team'', VNum 3)]) uploaded_db
     = (uploaded_db, Inl (HTTPException 500 ''400: Deal processing not complete''))"
proof -
  have m: "map_of uploaded_doc ''metadata''
      = Some (VDict [(''deal_id'', VStr ''ab12cd''), (''status'', VStr ''uploading''), (''created_at'', VTime 0)])"
    by (simp add: uploaded_doc_def)
  have st: "map_of [(''deal_id'', VStr ''ab12cd''), (''status'', VStr ''uploading''), (''created_at'', VTime 0)]
      ''status'' \<noteq> Some (VStr ''processed'')" by simp
  show ?thesis
    using memo_before_processed_answers_500 [OF uploaded_db_doc m st, of env_ok "VDict [(''team'', VNum 3)]"]
    by (simp add: str_nat_400 del: str_nat.simps)
qed

text \<open>
  For a processed deal, with the summarizer and the exporter answering, the response
  holds the identifier, the memo text, the document address and the record.
\<close>

lemma memo_for_processed_deal:
  assumes "docs s deal_id = Some d"
    and "map_of d ''metadata'' = Some (VDict md)"
    and "map_of md ''status'' = Some (VStr ''processed'')"
    and "summarizer_generate_memo env d weightage = Inr memo_text"
    and "create_memo_docx env deal_id memo_text = Inr docx_url"
  shows "\<exists>s' all_data. generate_memo env deal_id weightage s
     = (s', Inr \<lparr>mr_deal_id = deal_id, mr_memo_text = memo_text, mr_docx_url = docx_url,
                 mr_all_data = Some all_data\<rparr>) \<and>
     deal_status (the (docs s' deal_id)) = Some (VStr ''processed'')"
proof -
  have "d \<noteq> []" using assms(2) by auto
  have ds: "deal_status d = Some (VStr ''processed'')"
    using assms(2,3) by (simp add: deal_status_def sub_dict_def)
  show ?thesis
    using assms \<open>d \<noteq> []\<close> ds
    by (simp add: generate_memo_def generate_memo_try_def get_deal_def update_deal_def docs_put_doc
        merge_patch_def deal_status_set_path1 deal_status_set_path2 Let_def del: set_path.simps)
qed

































end
